theory Spec2Isabelle
  imports Complex_Main
begin

section \<open>Amounts, rounding and month-year values\<close>

text \<open>
  Contribution amounts are Python numbers. They are modelled as exact rationals, so a sum
  or a product is the mathematical one; the binary representation error of a float is
  outside this development. \<open>round2 x\<close> is Python's \<open>round(x, 2)\<close>: the nearest
  multiple of 0.01, an exact half going to the even neighbour.
\<close>

definition round_half_even :: "rat \<Rightarrow> int" where
  "round_half_even x =
     (let f = \<lfloor>x\<rfloor>; d = x - of_int f
      in if d < 1 / 2 then f else if 1 / 2 < d then f + 1 else if even f then f else f + 1)"

definition round2 :: "rat \<Rightarrow> rat" where
  "round2 x = of_int (round_half_even (x * 100)) / 100"

definition es_centimos :: "rat \<Rightarrow> bool" where
  "es_centimos x \<longleftrightarrow> round2 x = x"

text \<open>
  A month-year (the string \<open>mm/AAAA\<close> of the source, in the zero-padded form that
  \<open>strftime("%m/%Y")\<close> produces) is modelled by its month index
  \<open>year * 12 + (month - 1)\<close>. Python's \<open>datetime\<close> covers the years 1 to 9999;
  arithmetic with \<open>relativedelta\<close> that leaves this range raises \<open>ValueError\<close>.
\<close>

type_synonym mes_anyo_t = int

definition ym :: "int \<Rightarrow> int \<Rightarrow> mes_anyo_t" where
  "ym anyo mes = anyo * 12 + (mes - 1)"

definition anyo_de :: "mes_anyo_t \<Rightarrow> int" where
  "anyo_de f = f div 12"

definition fecha_valida :: "mes_anyo_t \<Rightarrow> bool" where
  "fecha_valida f \<longleftrightarrow> 12 \<le> f \<and> f \<le> 119999"

datatype error =
    EntradaNoEsDiccionario
  | FaltaClaveBases
  | BasesNoEsLista
  | ListaBasesVacia
  | FormatoFechaInvalido
  | RegimenInvalido
  | BaseNegativa
  | FechaFueraDeRango
  | SecuenciaVacia
  | ClaveAusente
  | DivisionPorCero
  | CombinacionRegimenesInvalida

definition bind_res :: "error + 'a \<Rightarrow> ('a \<Rightarrow> error + 'b) \<Rightarrow> error + 'b" where
  "bind_res r f = (case r of Inl e \<Rightarrow> Inl e | Inr v \<Rightarrow> f v)"

text \<open>\<open>fecha + relativedelta(months=k)\<close>; a negative \<open>k\<close> subtracts.\<close>

definition mas_meses :: "mes_anyo_t \<Rightarrow> int \<Rightarrow> error + mes_anyo_t" where
  "mas_meses f k = (if fecha_valida (f + k) then Inr (f + k) else Inl FechaFueraDeRango)"

section \<open>Python built-ins used by the simulator\<close>

text \<open>
  \<open>min(xs, key=f)\<close> and \<open>max(xs, key=f)\<close> return the first element that attains the
  extreme key, and raise \<open>ValueError\<close> on an empty sequence (here \<open>None\<close>).
\<close>

fun py_min_key :: "('a \<Rightarrow> 'k::linorder) \<Rightarrow> 'a list \<Rightarrow> 'a option" where
  "py_min_key f [] = None"
| "py_min_key f (x # xs) = Some (foldl (\<lambda>best y. if f y < f best then y else best) x xs)"

fun py_max_key :: "('a \<Rightarrow> 'k::linorder) \<Rightarrow> 'a list \<Rightarrow> 'a option" where
  "py_max_key f [] = None"
| "py_max_key f (x # xs) = Some (foldl (\<lambda>best y. if f best < f y then y else best) x xs)"

text \<open>\<open>str.upper()\<close>, on the ASCII letters.\<close>

definition upper_char :: "char \<Rightarrow> char" where
  "upper_char c =
     (case map_of (zip ''abcdefghijklmnopqrstuvwxyz'' ''ABCDEFGHIJKLMNOPQRSTUVWXYZ'') c of
        Some u \<Rightarrow> u
      | None \<Rightarrow> c)"

definition upper :: "string \<Rightarrow> string" where
  "upper s = map upper_char s"

section \<open>Data model\<close>

text \<open>
  One entry of the input list \<open>bases_extraidas["bases"]\<close>; \<open>BaseCotizacion\<close> adds the
  optional multi-employer metadata, and the dictionaries built by \<open>anadir_periodo\<close>
  and \<open>revalorizar_bases\<close> add the period tag and the revaluation fields.
\<close>

record base_data =
  mes_anyo :: mes_anyo_t
  base :: rat
  empresa :: string
  regimen :: string

record metadatos =
  es_pluriactividad :: bool
  bases_individuales :: "base_data list"
  base_bruta :: rat
  tope_aplicado :: string
  empresas_detalle :: "string list"

record base_cotizacion = base_data +
  metadatos_pluriactividad :: "metadatos option"

record base_dict = base_data +
  periodo :: string
  pluriactividad :: "metadatos option"
  base_original :: "rat option"
  indice_revalorizacion :: "rat option"

text \<open>
  The constructor of the pydantic model \<open>BaseCotizacion\<close>: its validator stores
  \<open>round(float(v), 2)\<close>, and the metadata field defaults to \<open>None\<close>.
\<close>

definition BaseCotizacion :: "mes_anyo_t \<Rightarrow> rat \<Rightarrow> string \<Rightarrow> string \<Rightarrow> base_cotizacion" where
  "BaseCotizacion m b e r =
     \<lparr>mes_anyo = m, base = round2 b, empresa = e, regimen = r, metadatos_pluriactividad = None\<rparr>"

text \<open>
  The reference tables come from the YAML files through the global \<open>config\<close> object;
  the files are not part of the sources, so the tables are parameters. A table keyed by
  year is an association list in the dictionary's insertion order.
\<close>

record parametros =
  bases_incluidas :: int
  periodo_meses :: int
  divisor_base_reguladora :: rat

record topes =
  base_minima_mensual :: rat
  base_maxima_mensual :: rat

record configuracion =
  cfg_parametros_computo :: "(int \<times> parametros) list"
  cfg_indices_revalorizacion :: "mes_anyo_t \<rightharpoonup> rat"
  cfg_topes_cotizacion :: "(int \<times> topes) list"

record simulador =
  regimen_acceso :: string
  sexo :: string
  contador_lagunas :: nat
  cumple_condiciones_hombre :: bool
  parametros_computo :: "(int \<times> parametros) list"
  indices_revalorizacion :: "mes_anyo_t \<rightharpoonup> rat"
  topes_cotizacion :: "(int \<times> topes) list"
  fecha_jubilacion :: mes_anyo_t
  bases :: "base_cotizacion list"
  parametros_anyo_jubilacion :: parametros

section \<open>Reference-table lookups\<close>

text \<open>
  \<open>get_parametros_computo\<close> reads \<open>self.parametros_computo\<close> and the retirement
  year; it is called while the object is being built, so the table and the date are
  its arguments here. The nearest year is searched in \<open>sorted(keys)\<close>.
\<close>

definition get_parametros_computo_de ::
  "(int \<times> parametros) list \<Rightarrow> mes_anyo_t \<Rightarrow> error + parametros" where
  "get_parametros_computo_de tabla fj =
     (let anyo_jubilacion = anyo_de fj
      in case map_of tabla anyo_jubilacion of
           Some p \<Rightarrow> Inr p
         | None \<Rightarrow>
             (case py_min_key (\<lambda>x. \<bar>x - anyo_jubilacion\<bar>) (sort (map fst tabla)) of
                None \<Rightarrow> Inl SecuenciaVacia
              | Some cercano \<Rightarrow>
                  (case map_of tabla cercano of
                     None \<Rightarrow> Inl ClaveAusente
                   | Some p \<Rightarrow> Inr p)))"

definition get_parametros_computo :: "simulador \<Rightarrow> error + parametros" where
  "get_parametros_computo s = get_parametros_computo_de (parametros_computo s) (fecha_jubilacion s)"

text \<open>\<open>_obtener_topes_anyo\<close>: the nearest year is searched in \<open>list(keys)\<close>.\<close>

definition obtener_topes_anyo :: "(int \<times> topes) list \<Rightarrow> int \<Rightarrow> error + topes" where
  "obtener_topes_anyo tabla anyo =
     (case map_of tabla anyo of
        Some t \<Rightarrow> Inr t
      | None \<Rightarrow>
          (case py_min_key (\<lambda>x. \<bar>x - anyo\<bar>) (map fst tabla) of
             None \<Rightarrow> Inl SecuenciaVacia
           | Some cercano \<Rightarrow>
               (case map_of tabla cercano of
                  None \<Rightarrow> Inl ClaveAusente
                | Some t \<Rightarrow> Inr t)))"

definition obtener_base_minima_anyo :: "(int \<times> topes) list \<Rightarrow> int \<Rightarrow> error + rat" where
  "obtener_base_minima_anyo tabla anyo =
     bind_res (obtener_topes_anyo tabla anyo) (\<lambda>t. Inr (base_minima_mensual t))"

section \<open>Gap imputation\<close>

definition aplica_dt41 :: "simulador \<Rightarrow> bool" where
  "aplica_dt41 s \<longleftrightarrow>
     sexo s = ''FEMENINO'' \<or> (sexo s = ''MASCULINO'' \<and> cumple_condiciones_hombre s)"

definition calcular_base_laguna :: "simulador \<Rightarrow> mes_anyo_t \<Rightarrow> nat \<Rightarrow> error + rat" where
  "calcular_base_laguna s fecha_laguna n_laguna =
     (let anyo = anyo_de fecha_laguna
      in if regimen_acceso s = ''AUTONOMO'' then Inr 0
         else bind_res (obtener_base_minima_anyo (topes_cotizacion s) anyo) (\<lambda>base_min.
           if n_laguna \<le> 48 then Inr base_min
           else if aplica_dt41 s then
             (if n_laguna \<le> 60 then Inr base_min
              else if n_laguna \<le> 84 then Inr (round2 (8 / 10 * base_min))
              else Inr (round2 (5 / 10 * base_min)))
           else Inr (round2 (5 / 10 * base_min))))"

section \<open>Multi-employer aggregation\<close>

text \<open>The decimal digits of a number, for the label \<open>PLURIACTIVIDAD_n_EMPRESAS\<close>.\<close>

fun str_nat :: "nat \<Rightarrow> string" where
  "str_nat n =
     (if n < 10 then [''0123456789'' ! n]
      else str_nat (n div 10) @ [''0123456789'' ! (n mod 10)])"

record agregacion =
  ag_mes_anyo :: mes_anyo_t
  ag_bases_individuales :: "base_data list"
  base_agregada_bruta :: rat
  base_agregada_final :: rat
  aplicado_tope :: string
  regimen_principal :: string
  empresa_agregada :: string
  ag_empresas_detalle :: "string list"

text \<open>
  \<open>_agregar_bases_mes\<close>. The two cap lookups fail on an empty cap table, and
  \<open>max\<close> fails on an empty list of records.
\<close>

definition agregar_bases_mes ::
  "(int \<times> topes) list \<Rightarrow> base_data list \<Rightarrow> mes_anyo_t \<Rightarrow> error + agregacion" where
  "agregar_bases_mes tabla bases_mes fecha =
     (let suma_bruta = sum_list (map base bases_mes);
          anyo = anyo_de fecha
      in bind_res (obtener_base_minima_anyo tabla anyo) (\<lambda>tope_minimo.
         bind_res (obtener_topes_anyo tabla anyo) (\<lambda>topes_anyo.
           let tope_maximo = base_maxima_mensual topes_anyo;
               base_final =
                 (if suma_bruta < tope_minimo then tope_minimo
                  else if suma_bruta > tope_maximo then tope_maximo
                  else suma_bruta);
               tope =
                 (if suma_bruta < tope_minimo then ''minimo''
                  else if suma_bruta > tope_maximo then ''maximo''
                  else ''ninguno'')
           in case py_max_key base bases_mes of
                None \<Rightarrow> Inl SecuenciaVacia
              | Some mayor \<Rightarrow>
                  Inr \<lparr>ag_mes_anyo = fecha,
                       ag_bases_individuales = bases_mes,
                       base_agregada_bruta = round2 suma_bruta,
                       base_agregada_final = round2 base_final,
                       aplicado_tope = tope,
                       regimen_principal = regimen mayor,
                       empresa_agregada =
                         ''PLURIACTIVIDAD_'' @ str_nat (length bases_mes) @ ''_EMPRESAS'',
                       ag_empresas_detalle = map empresa bases_mes\<rparr>)))"

definition validar_coherencia_pluriactividad :: "base_data list \<Rightarrow> bool" where
  "validar_coherencia_pluriactividad bases_mes = True"

section \<open>Ingestion\<close>

text \<open>
  The argument \<open>bases_extraidas\<close> of the constructor: anything that is not a
  dictionary, a dictionary without the key \<open>bases\<close>, one whose \<open>bases\<close> is not a
  list, or one with a list of records.
\<close>

datatype entrada =
    NoDiccionario
  | SinClaveBases
  | BasesNoLista
  | Bases "base_data list"

text \<open>
  \<open>datetime.strptime(s, "%m/%Y")\<close>: a month \<open>1[0-2]|0[1-9]|[1-9]\<close>, a slash and
  a year of exactly four digits, with nothing left over; the year 0 is rejected.
\<close>

definition es_digito :: "char \<Rightarrow> bool" where
  "es_digito c \<longleftrightarrow> c \<in> set ''0123456789''"

definition valor_digito :: "char \<Rightarrow> int" where
  "valor_digito c =
     (case map_of (zip ''0123456789'' [0, 1, 2, 3, 4, 5, 6, 7, 8, 9]) c of
        Some v \<Rightarrow> v
      | None \<Rightarrow> 0)"

definition strptime_anyo :: "int \<Rightarrow> string \<Rightarrow> mes_anyo_t option" where
  "strptime_anyo mes resto =
     (case resto of
        [s, a, b, c, d] \<Rightarrow>
          if s = CHR ''/'' \<and> es_digito a \<and> es_digito b \<and> es_digito c \<and> es_digito d
          then (let anyo = 1000 * valor_digito a + 100 * valor_digito b
                             + 10 * valor_digito c + valor_digito d
                in if anyo = 0 then None else Some (ym anyo mes))
          else None
      | _ \<Rightarrow> None)"

definition strptime :: "string \<Rightarrow> mes_anyo_t option" where
  "strptime s =
     (case s of
        m1 # m2 # resto \<Rightarrow>
          if m1 = CHR ''1'' \<and> m2 \<in> set ''012'' then strptime_anyo (10 + valor_digito m2) resto
          else if m1 = CHR ''0'' \<and> m2 \<in> set ''123456789'' then strptime_anyo (valor_digito m2) resto
          else if m1 \<in> set ''123456789'' then strptime_anyo (valor_digito m1) (m2 # resto)
          else None
      | _ \<Rightarrow> None)"

text \<open>\<open>_validar_datos_entrada\<close>; the regime is the upper-cased one of the constructor.\<close>

definition validar_datos_entrada :: "entrada \<Rightarrow> string \<Rightarrow> string \<Rightarrow> error + unit" where
  "validar_datos_entrada bases_extraidas fecha_jub regimen_ac =
     (case bases_extraidas of
        NoDiccionario \<Rightarrow> Inl EntradaNoEsDiccionario
      | SinClaveBases \<Rightarrow> Inl FaltaClaveBases
      | BasesNoLista \<Rightarrow> Inl BasesNoEsLista
      | Bases bs \<Rightarrow>
          if bs = [] then Inl ListaBasesVacia
          else if strptime fecha_jub = None then Inl FormatoFechaInvalido
          else if regimen_ac \<notin> set [''GENERAL'', ''AUTONOMO''] then Inl RegimenInvalido
          else Inr ())"

definition procesar_fecha_jubilacion :: "string \<Rightarrow> error + mes_anyo_t" where
  "procesar_fecha_jubilacion fecha_jub =
     (case strptime fecha_jub of None \<Rightarrow> Inl FormatoFechaInvalido | Some f \<Rightarrow> Inr f)"

text \<open>
  \<open>_procesar_bases_extraidas\<close>, step 1: every record is checked for a negative amount
  and appended to the group of its month; the groups keep the order in which their
  months first appear, as the dictionary \<open>bases_por_mes\<close> does.
\<close>

fun anadir_a_grupo ::
  "base_data \<Rightarrow> (mes_anyo_t \<times> base_data list) list \<Rightarrow> (mes_anyo_t \<times> base_data list) list" where
  "anadir_a_grupo b [] = [(mes_anyo b, [b])]"
| "anadir_a_grupo b ((k, g) # resto) =
     (if k = mes_anyo b then (k, g @ [b]) # resto else (k, g) # anadir_a_grupo b resto)"

fun agrupar_por_mes ::
  "base_data list \<Rightarrow> (mes_anyo_t \<times> base_data list) list
     \<Rightarrow> error + (mes_anyo_t \<times> base_data list) list" where
  "agrupar_por_mes [] bases_por_mes = Inr bases_por_mes"
| "agrupar_por_mes (b # bs) bases_por_mes =
     (if base b < 0 then Inl BaseNegativa
      else agrupar_por_mes bs (anadir_a_grupo b bases_por_mes))"

fun map_res :: "('a \<Rightarrow> error + 'b) \<Rightarrow> 'a list \<Rightarrow> error + 'b list" where
  "map_res f [] = Inr []"
| "map_res f (x # xs) = bind_res (f x) (\<lambda>y. bind_res (map_res f xs) (\<lambda>ys. Inr (y # ys)))"

text \<open>Step 2: a month with one record passes through; several records are aggregated.\<close>

definition procesar_mes ::
  "(int \<times> topes) list \<Rightarrow> mes_anyo_t \<times> base_data list \<Rightarrow> error + base_cotizacion" where
  "procesar_mes tabla grupo =
     (case grupo of (mes, bases_mes) \<Rightarrow>
        (case bases_mes of
           [b] \<Rightarrow> Inr (BaseCotizacion (mes_anyo b) (base b) (empresa b) (regimen b))
         | _ \<Rightarrow>
             if \<not> validar_coherencia_pluriactividad bases_mes
             then Inl CombinacionRegimenesInvalida
             else bind_res (agregar_bases_mes tabla bases_mes mes) (\<lambda>r.
               Inr ((BaseCotizacion mes (base_agregada_final r) (empresa_agregada r)
                       (regimen_principal r))
                    \<lparr>metadatos_pluriactividad :=
                       Some \<lparr>es_pluriactividad = True,
                             bases_individuales = ag_bases_individuales r,
                             base_bruta = base_agregada_bruta r,
                             tope_aplicado = aplicado_tope r,
                             empresas_detalle = ag_empresas_detalle r\<rparr>\<rparr>))))"

text \<open>
  A stable sort, most recent month first: \<open>list.sort(key=..., reverse=True)\<close> keeps
  the order of records with equal keys.
\<close>

definition ordenar_reciente_primero :: "('a \<Rightarrow> mes_anyo_t) \<Rightarrow> 'a list \<Rightarrow> 'a list" where
  "ordenar_reciente_primero clave xs = sort_key (\<lambda>x. - clave x) xs"

text \<open>
  Step 3 parses the month of every record for the sort key, so a record whose month is
  not a date fails the constructor.
\<close>

definition procesar_bases_extraidas ::
  "(int \<times> topes) list \<Rightarrow> base_data list \<Rightarrow> error + base_cotizacion list" where
  "procesar_bases_extraidas tabla lista =
     bind_res (agrupar_por_mes lista []) (\<lambda>bases_por_mes.
     bind_res (map_res (procesar_mes tabla) bases_por_mes) (\<lambda>bases_procesadas.
       if list_all (\<lambda>b. fecha_valida (mes_anyo b)) bases_procesadas
       then Inr (ordenar_reciente_primero mes_anyo bases_procesadas)
       else Inl FormatoFechaInvalido))"

definition lista_de :: "entrada \<Rightarrow> base_data list" where
  "lista_de e = (case e of Bases bs \<Rightarrow> bs | _ \<Rightarrow> [])"

text \<open>
  The constructor \<open>SimuladorPeriodos.__init__\<close>. The sex is upper-cased and stored;
  the reference tables are those of the configuration.
\<close>

definition init ::
  "configuracion \<Rightarrow> entrada \<Rightarrow> string \<Rightarrow> string \<Rightarrow> string \<Rightarrow> error + simulador" where
  "init cfg bases_extraidas fecha_jub regimen_ac sexo_in =
     (let reg = upper regimen_ac; sx = upper sexo_in
      in bind_res (validar_datos_entrada bases_extraidas fecha_jub reg) (\<lambda>_.
         bind_res (procesar_fecha_jubilacion fecha_jub) (\<lambda>fecha.
         bind_res (procesar_bases_extraidas (cfg_topes_cotizacion cfg) (lista_de bases_extraidas))
           (\<lambda>bs.
         bind_res (get_parametros_computo_de (cfg_parametros_computo cfg) fecha) (\<lambda>p.
           Inr \<lparr>regimen_acceso = reg,
                sexo = sx,
                contador_lagunas = 0,
                cumple_condiciones_hombre = False,
                parametros_computo = cfg_parametros_computo cfg,
                indices_revalorizacion = cfg_indices_revalorizacion cfg,
                topes_cotizacion = cfg_topes_cotizacion cfg,
                fecha_jubilacion = fecha,
                bases = bs,
                parametros_anyo_jubilacion = p\<rparr>)))))"

section \<open>Projection of the months up to retirement\<close>

text \<open>
  The loop of \<open>simular_periodo_futuro\<close>: one record per month from \<open>fecha_actual\<close>
  up to and including \<open>fecha_limite\<close>. The limit is a date, so the increment stays
  in range.
\<close>

function bucle_simulacion ::
  "string \<Rightarrow> rat \<Rightarrow> mes_anyo_t \<Rightarrow> mes_anyo_t \<Rightarrow> base_cotizacion list" where
  "bucle_simulacion reg promedio fecha_actual fecha_limite =
     (if fecha_actual \<le> fecha_limite
      then BaseCotizacion fecha_actual (round2 promedio) ''SIMULADA'' reg
             # bucle_simulacion reg promedio (fecha_actual + 1) fecha_limite
      else [])"
  by pat_completeness auto
termination
  by (relation "measure (\<lambda>(reg, promedio, fecha_actual, fecha_limite).
        nat (fecha_limite + 1 - fecha_actual))") auto

declare bucle_simulacion.simps [simp del]

definition simular_periodo_futuro :: "simulador \<Rightarrow> error + base_cotizacion list" where
  "simular_periodo_futuro s =
     (case py_max_key mes_anyo (bases s) of
        None \<Rightarrow> Inr []
      | Some ultima_base \<Rightarrow>
          (let fecha_ultima_base = mes_anyo ultima_base
           in if fecha_jubilacion s \<le> fecha_ultima_base then Inr []
              else bind_res (mas_meses fecha_ultima_base (- 5)) (\<lambda>desde.
                let bases_recientes = map base (filter (\<lambda>b. desde \<le> mes_anyo b) (bases s));
                    promedio =
                      (if bases_recientes = [] then base ultima_base
                       else sum_list bases_recientes / of_nat (length bases_recientes))
                in bind_res (mas_meses fecha_ultima_base 1) (\<lambda>fecha_actual.
                   bind_res (mas_meses (fecha_jubilacion s) (- 1)) (\<lambda>fecha_limite_simulacion.
                     Inr (bucle_simulacion (regimen_acceso s) promedio fecha_actual
                            fecha_limite_simulacion))))))"

section \<open>The computation period\<close>

text \<open>
  The loop of \<open>obtener_bases_periodo_computo\<close>. The first argument counts the months
  still to include (\<open>bases_incluidas - meses_incluidos\<close>); \<open>contador\<close> is
  \<open>contador_lagunas_local\<close>. Each turn ends with \<open>fecha_actual -= relativedelta(months=1)\<close>.
\<close>

fun bucle_periodo ::
  "simulador \<Rightarrow> (mes_anyo_t \<rightharpoonup> base_cotizacion) \<Rightarrow> nat \<Rightarrow> mes_anyo_t \<Rightarrow> nat
     \<Rightarrow> error + base_cotizacion list" where
  "bucle_periodo s bases_dict 0 fecha_actual contador = Inr []"
| "bucle_periodo s bases_dict (Suc k) fecha_actual contador =
     (case bases_dict fecha_actual of
        Some b \<Rightarrow>
          bind_res (mas_meses fecha_actual (- 1)) (\<lambda>anterior.
          bind_res (bucle_periodo s bases_dict k anterior contador) (\<lambda>resto.
            Inr (b # resto)))
      | None \<Rightarrow>
          bind_res (calcular_base_laguna s fecha_actual (contador + 1)) (\<lambda>base_calculada.
          bind_res (mas_meses fecha_actual (- 1)) (\<lambda>anterior.
          bind_res (bucle_periodo s bases_dict k anterior (contador + 1)) (\<lambda>resto.
            Inr (BaseCotizacion fecha_actual base_calculada ''LAGUNA'' (regimen_acceso s)
                   # resto)))))"

text \<open>The dictionary \<open>bases_dict\<close>: a later record of a month replaces an earlier one.\<close>

definition construir_bases_dict :: "base_cotizacion list \<Rightarrow> (mes_anyo_t \<rightharpoonup> base_cotizacion)" where
  "construir_bases_dict bases_todas = foldl (\<lambda>d b. d(mes_anyo b \<mapsto> b)) Map.empty bases_todas"

definition numero_bases :: "simulador \<Rightarrow> bool \<Rightarrow> int" where
  "numero_bases s usar_parametros_antiguos =
     (if usar_parametros_antiguos then 300
      else bases_incluidas (parametros_anyo_jubilacion s))"

definition obtener_bases_periodo_computo ::
  "simulador \<Rightarrow> bool \<Rightarrow> error + base_cotizacion list" where
  "obtener_bases_periodo_computo s usar_parametros_antiguos =
     bind_res (simular_periodo_futuro s) (\<lambda>simuladas.
       let bases_todas = bases s @ simuladas;
           bases_dict = construir_bases_dict bases_todas;
           n = numero_bases s usar_parametros_antiguos
       in bind_res (mas_meses (fecha_jubilacion s) (- 1)) (\<lambda>fecha_actual.
            bucle_periodo s bases_dict (nat n) fecha_actual 0))"

section \<open>Period tags and revaluation\<close>

definition etiquetar :: "mes_anyo_t \<Rightarrow> base_cotizacion \<Rightarrow> base_dict" where
  "etiquetar fecha_limite b =
     \<lparr>mes_anyo = mes_anyo b, base = base b, empresa = empresa b, regimen = regimen b,
      periodo = (if fecha_limite \<le> mes_anyo b then ''no_revalorizado'' else ''revalorizado''),
      pluriactividad = metadatos_pluriactividad b,
      base_original = None,
      indice_revalorizacion = None\<rparr>"

definition anadir_periodo :: "simulador \<Rightarrow> base_cotizacion list \<Rightarrow> error + base_dict list" where
  "anadir_periodo s bases_periodo =
     bind_res (mas_meses (fecha_jubilacion s) (- 24)) (\<lambda>fecha_limite.
       Inr (map (etiquetar fecha_limite) bases_periodo))"

definition revalorizar :: "(mes_anyo_t \<rightharpoonup> rat) \<Rightarrow> base_dict \<Rightarrow> base_dict" where
  "revalorizar indices d =
     (if periodo d = ''revalorizado'' then
        (case indices (mes_anyo d) of
           Some indice \<Rightarrow>
             d\<lparr>base := round2 (base d * indice),
               base_original := Some (base d),
               indice_revalorizacion := Some indice\<rparr>
         | None \<Rightarrow> d\<lparr>base_original := Some (base d), indice_revalorizacion := Some 1\<rparr>)
      else d)"

definition revalorizar_bases :: "simulador \<Rightarrow> base_dict list \<Rightarrow> base_dict list" where
  "revalorizar_bases s bases_con_periodo = map (revalorizar (indices_revalorizacion s)) bases_con_periodo"

section \<open>Statistics\<close>

record estadisticas =
  total_bases :: nat
  bases_revalorizadas :: nat
  bases_no_revalorizadas :: nat
  suma_periodo_revalorizado :: rat
  suma_periodo_no_revalorizado :: rat
  suma_total :: rat
  base_reguladora :: rat

text \<open>
  \<open>_calcular_estadisticas_para_bases\<close>: the empty dictionary for an empty list is
  \<open>None\<close>; the division raises \<open>ZeroDivisionError\<close> on a zero divisor.
\<close>

definition calcular_estadisticas_para_bases ::
  "base_dict list \<Rightarrow> rat \<Rightarrow> error + estadisticas option" where
  "calcular_estadisticas_para_bases bases_procesadas divisor =
     (if bases_procesadas = [] then Inr None
      else
        (let revalorizadas = filter (\<lambda>b. periodo b = ''revalorizado'') bases_procesadas;
             no_revalorizadas = filter (\<lambda>b. periodo b = ''no_revalorizado'') bases_procesadas;
             suma_revalorizadas = sum_list (map base revalorizadas);
             suma_no_revalorizadas = sum_list (map base no_revalorizadas);
             suma = suma_revalorizadas + suma_no_revalorizadas
         in if divisor = 0 then Inl DivisionPorCero
            else Inr (Some
              \<lparr>total_bases = length bases_procesadas,
               bases_revalorizadas = length revalorizadas,
               bases_no_revalorizadas = length no_revalorizadas,
               suma_periodo_revalorizado = round2 suma_revalorizadas,
               suma_periodo_no_revalorizado = round2 suma_no_revalorizadas,
               suma_total = round2 suma,
               base_reguladora = round2 (suma / divisor)\<rparr>)))"

section \<open>The two calculations and the choice between them\<close>

definition procesar_calculo ::
  "simulador \<Rightarrow> bool \<Rightarrow> rat \<Rightarrow> error + (base_dict list \<times> estadisticas option)" where
  "procesar_calculo s usar_parametros_antiguos divisor =
     bind_res (obtener_bases_periodo_computo s usar_parametros_antiguos) (\<lambda>bases_periodo.
     bind_res (anadir_periodo s bases_periodo) (\<lambda>bases_con_periodo.
       let bases_revalorizadas =
             ordenar_reciente_primero mes_anyo (revalorizar_bases s bases_con_periodo)
       in bind_res (calcular_estadisticas_para_bases bases_revalorizadas divisor) (\<lambda>est.
            Inr (bases_revalorizadas, est))))"

text \<open>
  \<open>_procesar_calculo_reforma\<close> and \<open>_procesar_calculo_prereforma\<close> are the same five
  steps; they differ in the flag and in the divisor.
\<close>

definition procesar_calculo_reforma ::
  "simulador \<Rightarrow> error + (base_dict list \<times> estadisticas option)" where
  "procesar_calculo_reforma s =
     procesar_calculo s False (divisor_base_reguladora (parametros_anyo_jubilacion s))"

definition procesar_calculo_prereforma ::
  "simulador \<Rightarrow> error + (base_dict list \<times> estadisticas option)" where
  "procesar_calculo_prereforma s = procesar_calculo s True 350"

text \<open>
  \<open>_elegir_calculo_mas_favorable\<close>: reading \<open>base_reguladora\<close> from the empty
  dictionary of an empty period raises \<open>KeyError\<close>.
\<close>

definition elegir_calculo_mas_favorable ::
  "base_dict list \<Rightarrow> estadisticas option \<Rightarrow> base_dict list \<Rightarrow> estadisticas option
     \<Rightarrow> error + (base_dict list \<times> estadisticas option \<times> string)" where
  "elegir_calculo_mas_favorable bases_reforma estadisticas_reforma
       bases_prereforma estadisticas_prereforma =
     (case estadisticas_reforma of
        None \<Rightarrow> Inl ClaveAusente
      | Some er \<Rightarrow>
          (case estadisticas_prereforma of
             None \<Rightarrow> Inl ClaveAusente
           | Some ep \<Rightarrow>
               if base_reguladora er \<ge> base_reguladora ep
               then Inr (bases_reforma, estadisticas_reforma, ''reforma_rd2_2023'')
               else Inr (bases_prereforma, estadisticas_prereforma, ''prereforma'')))"

record comparativa =
  cmp_bases_incluidas :: int
  cmp_divisor :: rat
  cmp_periodo_meses :: int
  cmp_estadisticas :: "estadisticas option"
  cmp_total_bases :: nat

record resultado =
  bases_procesadas :: "base_dict list"
  res_estadisticas :: "estadisticas option"
  calculo_elegido :: string
  calculo_reforma_rd2_2023 :: comparativa
  calculo_prereforma :: comparativa
  res_parametros_computo :: parametros
  res_fecha_jubilacion :: mes_anyo_t
  res_regimen_acceso :: string
  res_sexo :: string

definition generar_resultado_completo ::
  "simulador \<Rightarrow> base_dict list \<Rightarrow> estadisticas option \<Rightarrow> string \<Rightarrow> base_dict list
     \<Rightarrow> estadisticas option \<Rightarrow> base_dict list \<Rightarrow> estadisticas option \<Rightarrow> resultado" where
  "generar_resultado_completo s bases_elegidas estadisticas_elegidas elegido
       bases_reforma estadisticas_reforma bases_prereforma estadisticas_prereforma =
     \<lparr>bases_procesadas = bases_elegidas,
      res_estadisticas = estadisticas_elegidas,
      calculo_elegido = elegido,
      calculo_reforma_rd2_2023 =
        \<lparr>cmp_bases_incluidas = bases_incluidas (parametros_anyo_jubilacion s),
         cmp_divisor = divisor_base_reguladora (parametros_anyo_jubilacion s),
         cmp_periodo_meses = periodo_meses (parametros_anyo_jubilacion s),
         cmp_estadisticas = estadisticas_reforma,
         cmp_total_bases = length bases_reforma\<rparr>,
      calculo_prereforma =
        \<lparr>cmp_bases_incluidas = 300,
         cmp_divisor = 350,
         cmp_periodo_meses = 300,
         cmp_estadisticas = estadisticas_prereforma,
         cmp_total_bases = length bases_prereforma\<rparr>,
      res_parametros_computo = parametros_anyo_jubilacion s,
      res_fecha_jubilacion = fecha_jubilacion s,
      res_regimen_acceso = regimen_acceso s,
      res_sexo = sexo s\<rparr>"

definition procesar_bases_completo :: "simulador \<Rightarrow> error + resultado" where
  "procesar_bases_completo s =
     bind_res (procesar_calculo_reforma s) (\<lambda>(bases_reforma, estadisticas_reforma).
     bind_res (procesar_calculo_prereforma s) (\<lambda>(bases_prereforma, estadisticas_prereforma).
     bind_res (elegir_calculo_mas_favorable bases_reforma estadisticas_reforma
                 bases_prereforma estadisticas_prereforma)
       (\<lambda>(bases_elegidas, estadisticas_elegidas, elegido).
         Inr (generar_resultado_completo s bases_elegidas estadisticas_elegidas elegido
                bases_reforma estadisticas_reforma bases_prereforma estadisticas_prereforma))))"

section \<open>Notions used to state the properties of the period\<close>

text \<open>
  The number of gaps among the first \<open>i\<close> months of a backward walk that starts at
  \<open>fecha\<close>, and the record that the walk must produce for a month when a gap there
  would be the \<open>n\<close>-th one: the known record of the month or, for a gap, the record
  \<open>LAGUNA\<close> with the amount of \<open>calcular_base_laguna\<close> for the ordinal \<open>n\<close>.
\<close>

definition lagunas_antes :: "(mes_anyo_t \<rightharpoonup> base_cotizacion) \<Rightarrow> mes_anyo_t \<Rightarrow> nat \<Rightarrow> nat" where
  "lagunas_antes d fecha i = length (filter (\<lambda>j. d (fecha - int j) = None) [0..<i])"

definition registro_periodo ::
  "simulador \<Rightarrow> (mes_anyo_t \<rightharpoonup> base_cotizacion) \<Rightarrow> mes_anyo_t \<Rightarrow> nat \<Rightarrow> base_cotizacion \<Rightarrow> bool" where
  "registro_periodo s d fecha n x \<longleftrightarrow>
     (case d fecha of
        Some b \<Rightarrow> x = b
      | None \<Rightarrow>
          (case calcular_base_laguna s fecha n of
             Inl e \<Rightarrow> False
           | Inr v \<Rightarrow> x = BaseCotizacion fecha v ''LAGUNA'' (regimen_acceso s)))"

section \<open>Example data\<close>

text \<open>
  Reference tables for the examples: the parameters of 2025 and 2026, and the caps used
  by the examples of the specification (minimum 1080, maximum 4495).
\<close>

definition tabla_parametros_ej :: "(int \<times> parametros) list" where
  "tabla_parametros_ej =
     [(2025, \<lparr>bases_incluidas = 300, periodo_meses = 300, divisor_base_reguladora = 350\<rparr>),
      (2026, \<lparr>bases_incluidas = 302, periodo_meses = 304,
              divisor_base_reguladora = 35233 / 100\<rparr>)]"

definition tabla_topes_ej :: "(int \<times> topes) list" where
  "tabla_topes_ej =
     [(2024, \<lparr>base_minima_mensual = 1050, base_maxima_mensual = 4720\<rparr>),
      (2025, \<lparr>base_minima_mensual = 1080, base_maxima_mensual = 4495\<rparr>)]"

definition config_ej :: configuracion where
  "config_ej =
     \<lparr>cfg_parametros_computo = tabla_parametros_ej,
      cfg_indices_revalorizacion = [ym 2020 1 \<mapsto> 1035 / 1000],
      cfg_topes_cotizacion = tabla_topes_ej\<rparr>"

text \<open>The five records of the test fixture, 09/2024 to 01/2025.\<close>

definition bases_ejemplo :: "base_data list" where
  "bases_ejemplo =
     [\<lparr>mes_anyo = ym 2025 1, base = 150050 / 100, empresa = ''Empresa A'', regimen = ''GENERAL''\<rparr>,
      \<lparr>mes_anyo = ym 2024 12, base = 145075 / 100, empresa = ''Empresa A'', regimen = ''GENERAL''\<rparr>,
      \<lparr>mes_anyo = ym 2024 11, base = 140025 / 100, empresa = ''Empresa B'', regimen = ''GENERAL''\<rparr>,
      \<lparr>mes_anyo = ym 2024 10, base = 1350, empresa = ''Empresa B'', regimen = ''GENERAL''\<rparr>,
      \<lparr>mes_anyo = ym 2024 9, base = 130050 / 100, empresa = ''Empresa C'', regimen = ''GENERAL''\<rparr>]"

text \<open>
  The simulator that the constructor builds from the fixture for the retirement date
  06/2025, with the given access regime and sex.
\<close>

definition simulador_ej :: "string \<Rightarrow> string \<Rightarrow> simulador" where
  "simulador_ej reg sx =
     \<lparr>regimen_acceso = reg,
      sexo = sx,
      contador_lagunas = 0,
      cumple_condiciones_hombre = False,
      parametros_computo = tabla_parametros_ej,
      indices_revalorizacion = [ym 2020 1 \<mapsto> 1035 / 1000],
      topes_cotizacion = tabla_topes_ej,
      fecha_jubilacion = ym 2025 6,
      bases =
        [BaseCotizacion (ym 2025 1) (150050 / 100) ''Empresa A'' ''GENERAL'',
         BaseCotizacion (ym 2024 12) (145075 / 100) ''Empresa A'' ''GENERAL'',
         BaseCotizacion (ym 2024 11) (140025 / 100) ''Empresa B'' ''GENERAL'',
         BaseCotizacion (ym 2024 10) 1350 ''Empresa B'' ''GENERAL'',
         BaseCotizacion (ym 2024 9) (130050 / 100) ''Empresa C'' ''GENERAL''],
      parametros_anyo_jubilacion =
        \<lparr>bases_incluidas = 300, periodo_meses = 300, divisor_base_reguladora = 350\<rparr>\<rparr>"




text \<open>A record with a negative amount.\<close>

definition base_negativa_ej :: "base_data list" where
  "base_negativa_ej =
     [\<lparr>mes_anyo = ym 2025 1, base = - 100, empresa = ''Empresa A'', regimen = ''GENERAL''\<rparr>]"

section \<open>Basic facts\<close>

lemma bind_res_Inl [simp]: "bind_res (Inl e) f = Inl e"
  by (simp add: bind_res_def)

lemma bind_res_Inr [simp]: "bind_res (Inr v) f = f v"
  by (simp add: bind_res_def)

lemma bind_res_eq_Inr: "bind_res r f = Inr y \<longleftrightarrow> (\<exists>v. r = Inr v \<and> f v = Inr y)"
  by (cases r) simp_all

lemma bind_res_eq_Inl:
  "bind_res r f = Inl e \<longleftrightarrow> r = Inl e \<or> (\<exists>v. r = Inr v \<and> f v = Inl e)"
  by (cases r) simp_all

lemma floor_rat_numeral_div [simp]:
  "\<lfloor>numeral a / numeral b :: rat\<rfloor> = numeral a div numeral b"
  using floor_divide_of_int_eq [of "numeral a" "numeral b", where ?'a = rat] by simp

lemma foldl_min_aux:
  "foldl (\<lambda>best y. if f y < f best then y else best) x xs \<in> set (x # xs) \<and>
   (\<forall>y \<in> set (x # xs).
      f (foldl (\<lambda>best y. if f y < f best then y else best) x xs) \<le> (f y :: 'k :: linorder))"
proof (induction xs arbitrary: x)
  case Nil
  show ?case by simp
next
  case (Cons a xs)
  show ?case
    using Cons.IH [of "if f a < f x then a else x"]
    by (auto split: if_splits intro: order_trans less_imp_le)
qed

lemma py_min_key_Some:
  assumes "xs \<noteq> []"
  shows "\<exists>a. py_min_key f xs = Some a \<and> a \<in> set xs \<and> (\<forall>y \<in> set xs. f a \<le> f y)"
proof -
  from assms obtain x ys where xs: "xs = x # ys" by (cases xs) auto
  show ?thesis unfolding xs py_min_key.simps using foldl_min_aux [of f x ys] by blast
qed

lemma round2_centimos: "round2 (of_int n / 100) = of_int n / 100"
  by (simp add: round2_def round_half_even_def)

lemma es_centimos_iff: "es_centimos x \<longleftrightarrow> (\<exists>n::int. x = of_int n / 100)"
proof
  assume "es_centimos x"
  then have "x = of_int (round_half_even (x * 100)) / 100"
    unfolding es_centimos_def round2_def by simp
  then show "\<exists>n::int. x = of_int n / 100" ..
next
  assume "\<exists>n::int. x = of_int n / 100"
  then obtain n :: int where "x = of_int n / 100" ..
  then show "es_centimos x" unfolding es_centimos_def by (simp only: round2_centimos)
qed

lemma es_centimos_round2: "es_centimos (round2 x)"
  unfolding es_centimos_iff round2_def by blast

lemma round2_round2: "round2 (round2 x) = round2 x"
  using es_centimos_round2 [of x] by (simp add: es_centimos_def)




lemma round2_of_int: "round2 (of_int n) = of_int n"
  by (simp add: round2_def round_half_even_def)

lemma round2_numeral: "round2 (numeral k) = numeral k"
  using round2_of_int [of "numeral k"] by simp

lemma map_of_key_Some: "a \<in> fst ` set tabla \<Longrightarrow> \<exists>t. map_of tabla a = Some t"
  by (cases "map_of tabla a") (auto simp: map_of_eq_None_iff)

section \<open>The constructor on the fixture\<close>

lemma init_ej:
  "init config_ej (Bases bases_ejemplo) ''06/2025'' ''GENERAL'' ''MASCULINO''
     = Inr (simulador_ej ''GENERAL'' ''MASCULINO'')"
  by (simp add: init_def upper_def upper_char_def validar_datos_entrada_def strptime_def
        strptime_anyo_def es_digito_def valor_digito_def procesar_fecha_jubilacion_def
        bases_ejemplo_def config_ej_def lista_de_def procesar_bases_extraidas_def
        procesar_mes_def fecha_valida_def ym_def ordenar_reciente_primero_def
        get_parametros_computo_de_def anyo_de_def tabla_parametros_ej_def simulador_ej_def
        Let_def BaseCotizacion_def)

section \<open>Nearest-year fallback of the reference tables\<close>

lemma obtener_topes_anyo_fallback:
  assumes "tabla \<noteq> []" and "anyo \<notin> fst ` set tabla"
  shows "\<exists>c t. obtener_topes_anyo tabla anyo = Inr t \<and> map_of tabla c = Some t \<and>
           (\<forall>y \<in> fst ` set tabla. \<bar>c - anyo\<bar> \<le> \<bar>y - anyo\<bar>)"
proof -
  from assms(2) have none: "map_of tabla anyo = None" by (simp add: map_of_eq_None_iff)
  from assms(1) have "map fst tabla \<noteq> []" by simp
  from py_min_key_Some [OF this, of "\<lambda>x. \<bar>x - anyo\<bar>"]
  obtain c where c: "py_min_key (\<lambda>x. \<bar>x - anyo\<bar>) (map fst tabla) = Some c"
    "c \<in> set (map fst tabla)" "\<forall>y \<in> set (map fst tabla). \<bar>c - anyo\<bar> \<le> \<bar>y - anyo\<bar>"
    by blast
  from c(2) obtain t where t: "map_of tabla c = Some t" using map_of_key_Some [of c tabla] by auto
  have "obtener_topes_anyo tabla anyo = Inr t"
    by (simp add: obtener_topes_anyo_def none c(1) t)
  with t c(3) show ?thesis by auto
qed

lemma get_parametros_computo_de_fallback:
  assumes "tabla \<noteq> []" and "anyo_de fj \<notin> fst ` set tabla"
  shows "\<exists>c p. get_parametros_computo_de tabla fj = Inr p \<and> map_of tabla c = Some p \<and>
           (\<forall>y \<in> fst ` set tabla. \<bar>c - anyo_de fj\<bar> \<le> \<bar>y - anyo_de fj\<bar>)"
proof -
  from assms(2) have none: "map_of tabla (anyo_de fj) = None" by (simp add: map_of_eq_None_iff)
  from assms(1) have "sort (map fst tabla) \<noteq> []"
    by (metis length_sort length_0_conv map_is_Nil_conv)
  from py_min_key_Some [OF this, of "\<lambda>x. \<bar>x - anyo_de fj\<bar>"]
  obtain c where c: "py_min_key (\<lambda>x. \<bar>x - anyo_de fj\<bar>) (sort (map fst tabla)) = Some c"
    "c \<in> set (sort (map fst tabla))"
    "\<forall>y \<in> set (sort (map fst tabla)). \<bar>c - anyo_de fj\<bar> \<le> \<bar>y - anyo_de fj\<bar>"
    by blast
  from c(2) obtain p where p: "map_of tabla c = Some p" using map_of_key_Some [of c tabla] by auto
  have "get_parametros_computo_de tabla fj = Inr p"
    by (simp add: get_parametros_computo_de_def none c(1) p)
  with p c(3) show ?thesis by auto
qed

text \<open>
  Claim C9. When the lookup year is not a key of the computation-parameters table
  (respectively of the contribution-cap table) and the table is not empty, the lookup
  does not fail: it returns the entry of an available year \<open>c\<close> whose absolute distance to
  the lookup year is the smallest among the available years.
\<close>

theorem nearest_year_fallback:
  "(tp \<noteq> [] \<and> anyo_de fj \<notin> fst ` set tp \<longrightarrow>
      (\<exists>c p. get_parametros_computo_de tp fj = Inr p \<and> map_of tp c = Some p \<and>
             (\<forall>y \<in> fst ` set tp. \<bar>c - anyo_de fj\<bar> \<le> \<bar>y - anyo_de fj\<bar>))) \<and>
   (tt \<noteq> [] \<and> anyo \<notin> fst ` set tt \<longrightarrow>
      (\<exists>c t. obtener_topes_anyo tt anyo = Inr t \<and> map_of tt c = Some t \<and>
             (\<forall>y \<in> fst ` set tt. \<bar>c - anyo\<bar> \<le> \<bar>y - anyo\<bar>)))"
  using get_parametros_computo_de_fallback [of tp fj] obtener_topes_anyo_fallback [of tt anyo]
  by blast

theorem nearest_year_fallback_witness:
  "tabla_parametros_ej \<noteq> [] \<and> anyo_de (ym 2031 6) \<notin> fst ` set tabla_parametros_ej \<and>
   tabla_topes_ej \<noteq> [] \<and> 1999 \<notin> fst ` set tabla_topes_ej \<and>
   (\<exists>c p. get_parametros_computo_de tabla_parametros_ej (ym 2031 6) = Inr p \<and>
          map_of tabla_parametros_ej c = Some p \<and>
          (\<forall>y \<in> fst ` set tabla_parametros_ej.
             \<bar>c - anyo_de (ym 2031 6)\<bar> \<le> \<bar>y - anyo_de (ym 2031 6)\<bar>)) \<and>
   (\<exists>c t. obtener_topes_anyo tabla_topes_ej 1999 = Inr t \<and> map_of tabla_topes_ej c = Some t \<and>
          (\<forall>y \<in> fst ` set tabla_topes_ej. \<bar>c - 1999\<bar> \<le> \<bar>y - 1999\<bar>))"
proof -
  have h1: "tabla_parametros_ej \<noteq> [] \<and> anyo_de (ym 2031 6) \<notin> fst ` set tabla_parametros_ej"
    by (simp add: tabla_parametros_ej_def anyo_de_def ym_def)
  have h2: "tabla_topes_ej \<noteq> [] \<and> 1999 \<notin> fst ` set tabla_topes_ej"
    by (simp add: tabla_topes_ej_def)
  from nearest_year_fallback [of tabla_parametros_ej "ym 2031 6" tabla_topes_ej 1999] h1 h2
  show ?thesis by blast
qed

section \<open>The gap-amount rule\<close>

lemma base_minima_ej: "obtener_base_minima_anyo tabla_topes_ej 2025 = Inr 1080"
  by (simp add: obtener_base_minima_anyo_def obtener_topes_anyo_def tabla_topes_ej_def)



section \<open>Multi-employer aggregation under the caps\<close>

lemma foldl_max_aux:
  "foldl (\<lambda>best y. if f best < f y then y else best) x xs \<in> set (x # xs) \<and>
   (\<forall>y \<in> set (x # xs).
      (f y :: 'k :: linorder) \<le> f (foldl (\<lambda>best y. if f best < f y then y else best) x xs))"
proof (induction xs arbitrary: x)
  case Nil
  show ?case by simp
next
  case (Cons a xs)
  show ?case
    using Cons.IH [of "if f x < f a then a else x"]
    by (auto split: if_splits intro: order_trans less_imp_le)
qed

lemma py_max_key_Some:
  assumes "xs \<noteq> []"
  shows "\<exists>a. py_max_key f xs = Some a \<and> a \<in> set xs \<and> (\<forall>y \<in> set xs. f y \<le> f a)"
proof -
  from assms obtain x ys where xs: "xs = x # ys" by (cases xs) auto
  show ?thesis unfolding xs py_max_key.simps using foldl_max_aux [of f x ys] by blast
qed







section \<open>Period tags and revaluation\<close>

lemma anadir_periodo_Inr:
  assumes "fecha_valida (fecha_jubilacion s - 24)"
  shows "anadir_periodo s w = Inr (map (etiquetar (fecha_jubilacion s - 24)) w)"
  using assms by (simp add: anadir_periodo_def mas_meses_def)




section \<open>Statistics\<close>



section \<open>Projection of the months up to retirement\<close>

lemma bucle_simulacion_eq:
  "bucle_simulacion reg promedio a l
     = map (\<lambda>m. BaseCotizacion m (round2 promedio) ''SIMULADA'' reg) [a..l]"
proof (induction reg promedio a l rule: bucle_simulacion.induct)
  case (1 reg promedio a l)
  show ?case
  proof (cases "a \<le> l")
    case True
    with 1 show ?thesis by (subst bucle_simulacion.simps) (simp add: upto_rec1)
  next
    case False
    then show ?thesis by (subst bucle_simulacion.simps) simp
  qed
qed

lemma py_max_key_mes:
  assumes "u \<in> set bs" and "\<forall>b \<in> set bs. mes_anyo b \<le> mes_anyo u"
  shows "\<exists>a. py_max_key mes_anyo bs = Some a \<and> mes_anyo a = mes_anyo u"
proof -
  from assms(1) have "bs \<noteq> []" by auto
  from py_max_key_Some [OF this, of mes_anyo]
  obtain a where a: "py_max_key mes_anyo bs = Some a" "a \<in> set bs"
    "\<forall>y \<in> set bs. mes_anyo y \<le> mes_anyo a" by blast
  from a(2,3) assms have "mes_anyo a = mes_anyo u" by (meson order_antisym)
  with a(1) show ?thesis by blast
qed

lemma simular_periodo_futuro_aux:
  assumes "ultima \<in> set (bases s)"
    and "\<forall>b \<in> set (bases s). mes_anyo b \<le> mes_anyo ultima"
    and "mes_anyo ultima < fecha_jubilacion s"
    and "fecha_valida (fecha_jubilacion s)"
    and "fecha_valida (mes_anyo ultima - 5)"
  shows "\<exists>xs. simular_periodo_futuro s = Inr xs \<and>
     map mes_anyo xs = [mes_anyo ultima + 1 .. fecha_jubilacion s - 1] \<and>
     (\<forall>x \<in> set xs.
        base x = round2 (sum_list (map base (filter (\<lambda>b. mes_anyo ultima - 5 \<le> mes_anyo b) (bases s)))
                          / of_nat (length (filter (\<lambda>b. mes_anyo ultima - 5 \<le> mes_anyo b) (bases s)))) \<and>
        empresa x = ''SIMULADA'' \<and> regimen x = regimen_acceso s)"
proof -
  let ?f = "filter (\<lambda>b. mes_anyo ultima - 5 \<le> mes_anyo b) (bases s)"
  let ?p = "sum_list (map base ?f) / of_nat (length ?f)"
  let ?xs = "map (\<lambda>m. BaseCotizacion m (round2 ?p) ''SIMULADA'' (regimen_acceso s))
               [mes_anyo ultima + 1 .. fecha_jubilacion s - 1]"
  from py_max_key_mes [OF assms(1,2)]
  obtain a where a: "py_max_key mes_anyo (bases s) = Some a" "mes_anyo a = mes_anyo ultima"
    by blast
  have ne: "?f \<noteq> []"
    using assms(1) by (auto simp: filter_empty_conv intro!: bexI [of _ ultima])
  have v: "fecha_valida (mes_anyo ultima - 5)" "fecha_valida (mes_anyo ultima + 1)"
    "fecha_valida (fecha_jubilacion s - 1)"
    using assms(3,4,5) by (simp_all add: fecha_valida_def)
  have nle: "\<not> fecha_jubilacion s \<le> mes_anyo ultima" using assms(3) by simp
  have sim: "simular_periodo_futuro s = Inr ?xs"
    by (simp add: simular_periodo_futuro_def a Let_def mas_meses_def v nle ne
          bucle_simulacion_eq)
  have m: "map mes_anyo ?xs = [mes_anyo ultima + 1 .. fecha_jubilacion s - 1]"
    by (simp add: BaseCotizacion_def comp_def)
  have e: "\<forall>x \<in> set ?xs. base x = round2 ?p \<and> empresa x = ''SIMULADA'' \<and>
             regimen x = regimen_acceso s"
    by (simp add: BaseCotizacion_def round2_round2)
  from sim m e show ?thesis by blast
qed





section \<open>The computation period\<close>

lemma obtener_topes_anyo_total:
  assumes "tabla \<noteq> []"
  shows "\<exists>t. obtener_topes_anyo tabla anyo = Inr t"
proof (cases "anyo \<in> fst ` set tabla")
  case True
  from map_of_key_Some [OF True] obtain t where "map_of tabla anyo = Some t" ..
  then show ?thesis by (simp add: obtener_topes_anyo_def)
next
  case False
  from obtener_topes_anyo_fallback [OF assms False]
  obtain c t where "obtener_topes_anyo tabla anyo = Inr t" by (elim exE conjE)
  then show ?thesis ..
qed

lemma calcular_base_laguna_total:
  assumes "regimen_acceso s = ''AUTONOMO'' \<or> topes_cotizacion s \<noteq> []"
  shows "\<exists>v. calcular_base_laguna s fecha n = Inr v"
proof (cases "regimen_acceso s = ''AUTONOMO''")
  case True
  then show ?thesis by (simp add: calcular_base_laguna_def)
next
  case False
  with assms have "topes_cotizacion s \<noteq> []" by simp
  from obtener_topes_anyo_total [OF this, of "anyo_de fecha"]
  obtain t where "obtener_topes_anyo (topes_cotizacion s) (anyo_de fecha) = Inr t" ..
  then show ?thesis
    by (simp add: calcular_base_laguna_def obtener_base_minima_anyo_def)
qed

lemma lagunas_antes_0: "lagunas_antes d fecha 0 = 0"
  by (simp add: lagunas_antes_def)

lemma lagunas_antes_Suc:
  "lagunas_antes d fecha (Suc i)
     = (if d fecha = None then 1 else 0) + lagunas_antes d (fecha - 1) i"
proof -
  have "[0..<Suc i] = 0 # map Suc [0..<i]"
    by (simp add: upt_conv_Cons map_Suc_upt del: upt_Suc)
  then have "filter (\<lambda>j. d (fecha - int j) = None) [0..<Suc i]
      = (if d fecha = None then [0] else [])
          @ map Suc (filter (\<lambda>j. d (fecha - 1 - int j) = None) [0..<i])"
    by (simp add: filter_map comp_def algebra_simps del: upt_Suc)
  then show ?thesis by (simp add: lagunas_antes_def del: upt_Suc)
qed

lemma registro_periodo_mes:
  assumes "registro_periodo s d fecha n x" and "\<forall>m b. d m = Some b \<longrightarrow> mes_anyo b = m"
  shows "mes_anyo x = fecha"
  using assms
  by (auto simp: registro_periodo_def BaseCotizacion_def split: option.splits sum.splits)

lemma bucle_periodo_ok:
  assumes "regimen_acceso s = ''AUTONOMO'' \<or> topes_cotizacion s \<noteq> []"
    and "12 \<le> fecha - int k" and "fecha \<le> 119999"
  shows "\<exists>w. bucle_periodo s d k fecha c = Inr w \<and> length w = k \<and>
     (\<forall>i < k. registro_periodo s d (fecha - int i) (c + 1 + lagunas_antes d fecha i) (w ! i))"
  using assms(2,3)
proof (induction k arbitrary: fecha c)
  case 0
  show ?case by simp
next
  case (Suc k)
  have ant: "mas_meses fecha (- 1) = Inr (fecha - 1)"
    using Suc.prems by (simp add: mas_meses_def fecha_valida_def)
  have rng: "12 \<le> fecha - 1 - int k" "fecha - 1 \<le> 119999" using Suc.prems by simp_all
  show ?case
  proof (cases "d fecha")
    case (Some b)
    from Suc.IH [OF rng, of c]
    obtain w where w: "bucle_periodo s d k (fecha - 1) c = Inr w" "length w = k"
      "\<forall>i < k. registro_periodo s d (fecha - 1 - int i)
          (c + 1 + lagunas_antes d (fecha - 1) i) (w ! i)"
      by (elim exE conjE)
    have "\<forall>i < Suc k. registro_periodo s d (fecha - int i)
        (c + 1 + lagunas_antes d fecha i) ((b # w) ! i)"
    proof (intro allI impI)
      fix i assume i: "i < Suc k"
      show "registro_periodo s d (fecha - int i) (c + 1 + lagunas_antes d fecha i) ((b # w) ! i)"
      proof (cases i)
        case 0
        then show ?thesis by (simp add: registro_periodo_def Some lagunas_antes_0)
      next
        case (Suc j)
        with i w(3) have "registro_periodo s d (fecha - 1 - int j)
            (c + 1 + lagunas_antes d (fecha - 1) j) (w ! j)" by simp
        then show ?thesis by (simp add: Suc lagunas_antes_Suc Some algebra_simps)
      qed
    qed
    with w(1,2) show ?thesis by (simp add: Some ant)
  next
    case None
    from calcular_base_laguna_total [OF assms(1), of fecha "c + 1"]
    obtain v where v: "calcular_base_laguna s fecha (c + 1) = Inr v" ..
    from Suc.IH [OF rng, of "c + 1"]
    obtain w where w: "bucle_periodo s d k (fecha - 1) (c + 1) = Inr w" "length w = k"
      "\<forall>i < k. registro_periodo s d (fecha - 1 - int i)
          (c + 1 + 1 + lagunas_antes d (fecha - 1) i) (w ! i)"
      by (elim exE conjE)
    let ?x = "BaseCotizacion fecha v ''LAGUNA'' (regimen_acceso s)"
    have "\<forall>i < Suc k. registro_periodo s d (fecha - int i)
        (c + 1 + lagunas_antes d fecha i) ((?x # w) ! i)"
    proof (intro allI impI)
      fix i assume i: "i < Suc k"
      show "registro_periodo s d (fecha - int i) (c + 1 + lagunas_antes d fecha i) ((?x # w) ! i)"
      proof (cases i)
        case 0
        then show ?thesis using v by (simp add: registro_periodo_def None lagunas_antes_0)
      next
        case (Suc j)
        with i w(3) have "registro_periodo s d (fecha - 1 - int j)
            (c + 1 + 1 + lagunas_antes d (fecha - 1) j) (w ! j)" by simp
        then show ?thesis by (simp add: Suc lagunas_antes_Suc None algebra_simps)
      qed
    qed
    with w(1,2) v show ?thesis by (simp add: None ant)
  qed
qed

lemma foldl_dict_mes:
  fixes d0 :: "mes_anyo_t \<rightharpoonup> base_cotizacion"
  assumes "\<forall>m b. d0 m = Some b \<longrightarrow> mes_anyo b = m"
  shows "\<forall>m b. foldl (\<lambda>d b. d(mes_anyo b \<mapsto> b)) d0 bs m = Some b \<longrightarrow> mes_anyo b = m"
  using assms
proof (induction bs arbitrary: d0)
  case Nil
  show ?case unfolding foldl_Nil by (rule Nil)
next
  case (Cons x xs)
  have upd: "\<forall>m b. (d0(mes_anyo x \<mapsto> x)) m = Some b \<longrightarrow> mes_anyo b = m"
  proof (intro allI impI)
    fix m b
    assume h: "(d0(mes_anyo x \<mapsto> x)) m = Some b"
    show "mes_anyo b = m"
    proof (cases "m = mes_anyo x")
      case True
      from h have "Some x = Some b" unfolding True by (simp only: fun_upd_same)
      then have "x = b" by (simp only: option.inject)
      then show ?thesis unfolding True by (simp only:)
    next
      case False
      from h have "d0 m = Some b" unfolding fun_upd_other [OF False] .
      with Cons.prems show ?thesis by (elim allE impE)
    qed
  qed
  show ?case unfolding foldl_Cons by (rule Cons.IH [OF upd])
qed

lemma construir_bases_dict_mes:
  "\<forall>m b. construir_bases_dict bs m = Some b \<longrightarrow> mes_anyo b = m"
  unfolding construir_bases_dict_def by (rule foldl_dict_mes) simp

lemma simular_periodo_futuro_total:
  assumes "fecha_valida (fecha_jubilacion s)"
    and "\<forall>b \<in> set (bases s). fecha_valida (mes_anyo b - 5)"
  shows "\<exists>sim. simular_periodo_futuro s = Inr sim"
proof (cases "bases s")
  case Nil
  then show ?thesis by (simp add: simular_periodo_futuro_def)
next
  case (Cons x xs)
  then have "bases s \<noteq> []" by simp
  from py_max_key_Some [OF this, of mes_anyo]
  obtain a where a: "py_max_key mes_anyo (bases s) = Some a" "a \<in> set (bases s)"
    "\<forall>y \<in> set (bases s). mes_anyo y \<le> mes_anyo a" by (elim exE conjE)
  show ?thesis
  proof (cases "fecha_jubilacion s \<le> mes_anyo a")
    case True
    then show ?thesis by (simp add: simular_periodo_futuro_def a(1))
  next
    case False
    then have lt: "mes_anyo a < fecha_jubilacion s" by simp
    from assms(2) a(2) have "fecha_valida (mes_anyo a - 5)" by (rule bspec)
    from simular_periodo_futuro_aux [OF a(2,3) lt assms(1) this]
    obtain xs where "simular_periodo_futuro s = Inr xs" by (elim exE conjE)
    then show ?thesis ..
  qed
qed


lemma obtener_bases_periodo_computo_ok:
  assumes "fecha_valida (fecha_jubilacion s)"
    and "\<forall>b \<in> set (bases s). fecha_valida (mes_anyo b - 5)"
    and "regimen_acceso s = ''AUTONOMO'' \<or> topes_cotizacion s \<noteq> []"
    and "fecha_valida (fecha_jubilacion s - 1 - int (nat (numero_bases s usar)))"
  shows "\<exists>sim w. simular_periodo_futuro s = Inr sim \<and>
     obtener_bases_periodo_computo s usar = Inr w \<and>
     length w = nat (numero_bases s usar) \<and>
     map mes_anyo w
       = map (\<lambda>i. fecha_jubilacion s - 1 - int i) [0..<nat (numero_bases s usar)] \<and>
     (\<forall>i < nat (numero_bases s usar).
        registro_periodo s (construir_bases_dict (bases s @ sim))
          (fecha_jubilacion s - 1 - int i)
          (1 + lagunas_antes (construir_bases_dict (bases s @ sim)) (fecha_jubilacion s - 1) i)
          (w ! i))"
proof -
  let ?n = "nat (numero_bases s usar)"
  let ?f = "fecha_jubilacion s - 1"
  from simular_periodo_futuro_total [OF assms(1,2)]
  obtain sim where sim: "simular_periodo_futuro s = Inr sim" ..
  let ?d = "construir_bases_dict (bases s @ sim)"
  have rng: "12 \<le> ?f - int ?n" "?f \<le> 119999"
    using assms(1,4) by (simp_all add: fecha_valida_def)
  from rng(1) have "12 \<le> ?f" by arith
  with rng(2) have ant: "mas_meses (fecha_jubilacion s) (- 1) = Inr ?f"
    by (simp add: mas_meses_def fecha_valida_def)
  from bucle_periodo_ok [OF assms(3) rng, of ?d 0]
  obtain w where w: "bucle_periodo s ?d ?n ?f 0 = Inr w" "length w = ?n"
    "\<forall>i < ?n. registro_periodo s ?d (?f - int i) (0 + 1 + lagunas_antes ?d ?f i) (w ! i)"
    by (elim exE conjE)
  have ob: "obtener_bases_periodo_computo s usar = Inr w"
    by (simp add: obtener_bases_periodo_computo_def sim Let_def ant w(1))
  have mes: "mes_anyo (w ! i) = ?f - int i" if "i < ?n" for i
    using w(3) that construir_bases_dict_mes [of "bases s @ sim"] registro_periodo_mes
    by meson
  have "map mes_anyo w = map (\<lambda>i. ?f - int i) [0..<?n]"
    by (rule nth_equalityI) (simp_all add: w(2) mes)
  moreover have "\<forall>i < ?n. registro_periodo s ?d (?f - int i) (1 + lagunas_antes ?d ?f i) (w ! i)"
    using w(3) by simp
  ultimately show ?thesis using sim ob w(2) by blast
qed



section \<open>Order of the processed lists\<close>

lemma mas_meses_Inr: "mas_meses f k = Inr a \<Longrightarrow> a = f + k"
  by (simp add: mas_meses_def split: if_splits)

lemma map_meses_Suc:
  "map (\<lambda>i. f - int i) [0..<Suc k] = f # map (\<lambda>i. f - 1 - int i) [0..<k]"
proof -
  have "[0..<Suc k] = 0 # map Suc [0..<k]"
    by (simp add: upt_conv_Cons map_Suc_upt del: upt_Suc)
  then show ?thesis by (simp add: comp_def algebra_simps del: upt_Suc)
qed

lemma bucle_periodo_meses:
  assumes "bucle_periodo s d k fecha c = Inr w"
    and inv: "\<forall>m b. d m = Some b \<longrightarrow> mes_anyo b = m"
  shows "map mes_anyo w = map (\<lambda>i. fecha - int i) [0..<k]"
  using assms(1)
proof (induction k arbitrary: fecha c w)
  case 0
  then show ?case by simp
next
  case (Suc k)
  show ?case
  proof (cases "d fecha")
    case (Some b)
    from Suc.prems obtain a resto where a: "mas_meses fecha (- 1) = Inr a"
      and r: "bucle_periodo s d k a c = Inr resto" and w: "w = b # resto"
      by (auto simp: Some bind_res_eq_Inr)
    from mas_meses_Inr [OF a] have a': "a = fecha - 1" by simp
    from inv Some have b: "mes_anyo b = fecha" by (elim allE impE)
    from Suc.IH [OF r] show ?thesis
      unfolding w a' map_meses_Suc by (simp add: b)
  next
    case None
    from Suc.prems obtain v a resto where "calcular_base_laguna s fecha (c + 1) = Inr v"
      and a: "mas_meses fecha (- 1) = Inr a"
      and r: "bucle_periodo s d k a (c + 1) = Inr resto"
      and w: "w = BaseCotizacion fecha v ''LAGUNA'' (regimen_acceso s) # resto"
      by (auto simp: None bind_res_eq_Inr)
    from mas_meses_Inr [OF a] have a': "a = fecha - 1" by simp
    from Suc.IH [OF r] show ?thesis
      unfolding w a' map_meses_Suc by (simp add: BaseCotizacion_def)
  qed
qed

lemma obtener_bases_periodo_computo_meses:
  assumes "obtener_bases_periodo_computo s usar = Inr w"
  shows "map mes_anyo w
     = map (\<lambda>i. fecha_jubilacion s - 1 - int i) [0..<nat (numero_bases s usar)]"
proof -
  from assms obtain sim a where a: "mas_meses (fecha_jubilacion s) (- 1) = Inr a"
    and b: "bucle_periodo s (construir_bases_dict (bases s @ sim))
              (nat (numero_bases s usar)) a 0 = Inr w"
    by (auto simp: obtener_bases_periodo_computo_def bind_res_eq_Inr Let_def)
  from mas_meses_Inr [OF a] have a': "a = fecha_jubilacion s - 1" by simp
  from bucle_periodo_meses [OF b construir_bases_dict_mes] show ?thesis unfolding a' .
qed

lemma anadir_periodo_meses:
  assumes "anadir_periodo s w = Inr ds"
  shows "map mes_anyo ds = map mes_anyo w"
  using assms
  by (auto simp: anadir_periodo_def bind_res_eq_Inr etiquetar_def comp_def)

lemma revalorizar_mes: "mes_anyo (revalorizar ix d) = mes_anyo d"
  by (simp add: revalorizar_def split: option.splits)

lemma revalorizar_bases_meses: "map mes_anyo (revalorizar_bases s ds) = map mes_anyo ds"
  by (simp add: revalorizar_bases_def comp_def revalorizar_mes)

lemma meses_ordenados:
  assumes "map mes_anyo xs = map (\<lambda>i. c - int i) [0..<n]"
  shows "sorted (map (\<lambda>x. - mes_anyo x) xs)"
proof -
  have "map (\<lambda>x. - mes_anyo x) xs = map uminus (map mes_anyo xs)" by (simp add: comp_def)
  also have "\<dots> = map (\<lambda>i. int i - c) [0..<n]" unfolding assms by (simp add: comp_def)
  finally show ?thesis by (simp add: sorted_map sorted_wrt_iff_nth_less del: upt_Suc)
qed

lemma ordenar_reciente_primero_id:
  assumes "map mes_anyo xs = map (\<lambda>i. c - int i) [0..<n]"
  shows "ordenar_reciente_primero mes_anyo xs = xs"
  unfolding ordenar_reciente_primero_def
  by (rule sort_key_id_if_sorted) (rule meses_ordenados [OF assms])

lemma procesar_calculo_meses:
  assumes "procesar_calculo s usar dv = Inr (bs, est)"
  shows "map mes_anyo bs
     = map (\<lambda>i. fecha_jubilacion s - 1 - int i) [0..<nat (numero_bases s usar)]"
proof -
  from assms obtain w ds where w: "obtener_bases_periodo_computo s usar = Inr w"
    and ds: "anadir_periodo s w = Inr ds"
    and bs: "bs = ordenar_reciente_primero mes_anyo (revalorizar_bases s ds)"
    by (auto simp: procesar_calculo_def bind_res_eq_Inr Let_def)
  have "map mes_anyo (revalorizar_bases s ds)
      = map (\<lambda>i. fecha_jubilacion s - 1 - int i) [0..<nat (numero_bases s usar)]"
    using obtener_bases_periodo_computo_meses [OF w] anadir_periodo_meses [OF ds]
    by (simp add: revalorizar_bases_meses)
  then show ?thesis unfolding bs by (simp add: ordenar_reciente_primero_id)
qed

lemma orden_estricto:
  assumes "map mes_anyo xs = map (\<lambda>i. c - int i) [0..<n]"
  shows "sorted_wrt (\<lambda>a b. mes_anyo b < mes_anyo a) xs \<and>
         (xs \<noteq> [] \<longrightarrow> mes_anyo (hd xs) = c)"
proof
  from assms have len: "length xs = n" by (metis length_map length_upt diff_zero)
  have nth: "mes_anyo (xs ! i) = c - int i" if "i < n" for i
  proof -
    from that len have "mes_anyo (xs ! i) = map mes_anyo xs ! i" by simp
    also have "\<dots> = c - int i" unfolding assms using that by simp
    finally show ?thesis .
  qed
  show "sorted_wrt (\<lambda>a b. mes_anyo b < mes_anyo a) xs"
    unfolding sorted_wrt_iff_nth_less len
  proof (intro allI impI)
    fix i j assume "i < j" "j < n"
    then show "mes_anyo (xs ! j) < mes_anyo (xs ! i)" by (simp add: nth)
  qed
  show "xs \<noteq> [] \<longrightarrow> mes_anyo (hd xs) = c"
  proof
    assume "xs \<noteq> []"
    with len have "0 < n" by auto
    from nth [OF this] \<open>xs \<noteq> []\<close> show "mes_anyo (hd xs) = c" by (simp add: hd_conv_nth)
  qed
qed

section \<open>The complete computation\<close>

lemma procesar_calculo_total:
  assumes "fecha_valida (fecha_jubilacion s)"
    and "\<forall>b \<in> set (bases s). fecha_valida (mes_anyo b - 5)"
    and "regimen_acceso s = ''AUTONOMO'' \<or> topes_cotizacion s \<noteq> []"
    and "fecha_valida (fecha_jubilacion s - 1 - int (nat (numero_bases s usar)))"
    and "fecha_valida (fecha_jubilacion s - 24)"
    and "1 \<le> numero_bases s usar"
    and "dv \<noteq> 0"
  shows "\<exists>bs e. procesar_calculo s usar dv = Inr (bs, Some e)"
proof -
  from obtener_bases_periodo_computo_ok [OF assms(1-4)]
  obtain w where w: "obtener_bases_periodo_computo s usar = Inr w"
    "length w = nat (numero_bases s usar)"
    by (elim exE conjE)
  let ?ds = "map (etiquetar (fecha_jubilacion s - 24)) w"
  let ?bs = "ordenar_reciente_primero mes_anyo (revalorizar_bases s ?ds)"
  have ds: "anadir_periodo s w = Inr ?ds" by (rule anadir_periodo_Inr [OF assms(5)])
  have "length ?bs = nat (numero_bases s usar)"
    by (simp add: ordenar_reciente_primero_def revalorizar_bases_def w(2))
  with assms(6) have ne: "?bs \<noteq> []" by auto
  from ne assms(7) obtain e where "calcular_estadisticas_para_bases ?bs dv = Inr (Some e)"
    by (simp add: calcular_estadisticas_para_bases_def Let_def)
  then have "procesar_calculo s usar dv = Inr (?bs, Some e)"
    by (simp add: procesar_calculo_def w(1) ds Let_def)
  then show ?thesis by blast
qed

lemma procesar_bases_completo_eq:
  assumes "procesar_calculo_reforma s = Inr (br, Some er)"
    and "procesar_calculo_prereforma s = Inr (bp, Some ep)"
  shows "procesar_bases_completo s =
     Inr (if base_reguladora ep \<le> base_reguladora er
          then generar_resultado_completo s br (Some er) ''reforma_rd2_2023''
                 br (Some er) bp (Some ep)
          else generar_resultado_completo s bp (Some ep) ''prereforma''
                 br (Some er) bp (Some ep))"
  by (simp add: procesar_bases_completo_def assms elegir_calculo_mas_favorable_def)

lemma procesar_bases_completo_total:
  assumes "fecha_valida (fecha_jubilacion s)"
    and "\<forall>b \<in> set (bases s). fecha_valida (mes_anyo b - 5)"
    and "regimen_acceso s = ''AUTONOMO'' \<or> topes_cotizacion s \<noteq> []"
    and "fecha_valida (fecha_jubilacion s - 1 - 300)"
    and "fecha_valida
           (fecha_jubilacion s - 1 - int (nat (bases_incluidas (parametros_anyo_jubilacion s))))"
    and "1 \<le> bases_incluidas (parametros_anyo_jubilacion s)"
    and "divisor_base_reguladora (parametros_anyo_jubilacion s) \<noteq> 0"
  shows "\<exists>br er bp ep res. procesar_calculo_reforma s = Inr (br, Some er) \<and>
     procesar_calculo_prereforma s = Inr (bp, Some ep) \<and>
     procesar_bases_completo s = Inr res"
proof -
  have v24: "fecha_valida (fecha_jubilacion s - 24)"
    using assms(1,4) by (simp add: fecha_valida_def)
  have nr: "numero_bases s False = bases_incluidas (parametros_anyo_jubilacion s)"
    and np: "numero_bases s True = 300"
    by (simp_all add: numero_bases_def)
  have a4: "fecha_valida (fecha_jubilacion s - 1 - int (nat (numero_bases s False)))"
    unfolding nr by (rule assms(5))
  have a6: "1 \<le> numero_bases s False" unfolding nr by (rule assms(6))
  from procesar_calculo_total [OF assms(1-3) a4 v24 a6 assms(7)]
  obtain br er where r: "procesar_calculo_reforma s = Inr (br, Some er)"
    unfolding procesar_calculo_reforma_def by (elim exE)
  have a4p: "fecha_valida (fecha_jubilacion s - 1 - int (nat (numero_bases s True)))"
    unfolding np using assms(4) by simp
  have a6p: "1 \<le> numero_bases s True" unfolding np by simp
  have d: "(350 :: rat) \<noteq> 0" by simp
  from procesar_calculo_total [OF assms(1-3) a4p v24 a6p d]
  obtain bp ep where p: "procesar_calculo_prereforma s = Inr (bp, Some ep)"
    unfolding procesar_calculo_prereforma_def by (elim exE)
  from procesar_bases_completo_eq [OF r p] r p show ?thesis by blast
qed

lemma simulador_ej_valido:
  "fecha_valida (fecha_jubilacion (simulador_ej reg sx))"
  "\<forall>b \<in> set (bases (simulador_ej reg sx)). fecha_valida (mes_anyo b - 5)"
  "regimen_acceso (simulador_ej reg sx) = ''AUTONOMO'' \<or> topes_cotizacion (simulador_ej reg sx) \<noteq> []"
  "fecha_valida (fecha_jubilacion (simulador_ej reg sx) - 1 - 300)"
  "fecha_valida (fecha_jubilacion (simulador_ej reg sx) - 1
     - int (nat (bases_incluidas (parametros_anyo_jubilacion (simulador_ej reg sx)))))"
  "1 \<le> bases_incluidas (parametros_anyo_jubilacion (simulador_ej reg sx))"
  "divisor_base_reguladora (parametros_anyo_jubilacion (simulador_ej reg sx)) \<noteq> 0"
  by (simp_all add: simulador_ej_def fecha_valida_def ym_def BaseCotizacion_def
        tabla_topes_ej_def)

lemma procesar_bases_completo_Inr:
  assumes "procesar_bases_completo s = Inr res"
  shows "\<exists>br er bp ep. procesar_calculo_reforma s = Inr (br, er) \<and>
     procesar_calculo_prereforma s = Inr (bp, ep) \<and>
     (bases_procesadas res = br \<or> bases_procesadas res = bp)"
proof -
  from assms obtain br er bp ep be ee el
    where r: "procesar_calculo_reforma s = Inr (br, er)"
      and p: "procesar_calculo_prereforma s = Inr (bp, ep)"
      and c: "elegir_calculo_mas_favorable br er bp ep = Inr (be, ee, el)"
      and g: "res = generar_resultado_completo s be ee el br er bp ep"
    by (auto simp: procesar_bases_completo_def bind_res_eq_Inr)
  from c have "be = br \<or> be = bp"
    by (auto simp: elegir_calculo_mas_favorable_def split: option.splits if_splits)
  moreover from g have "bases_procesadas res = be"
    by (simp add: generar_resultado_completo_def)
  ultimately show ?thesis using r p by auto
qed

text \<open>
  Claim C10. When the complete computation returns a result, the list of each of the
  two calculations and the chosen list (which is one of the two) are in strictly
  descending order of month, most recent first, and the first record of a non-empty
  list is that of the month before retirement.
\<close>

theorem listas_en_orden_descendente:
  assumes "procesar_bases_completo s = Inr res"
  shows "\<exists>br er bp ep. procesar_calculo_reforma s = Inr (br, er) \<and>
     procesar_calculo_prereforma s = Inr (bp, ep) \<and>
     (bases_procesadas res = br \<or> bases_procesadas res = bp) \<and>
     sorted_wrt (\<lambda>a b. mes_anyo b < mes_anyo a) br \<and>
     sorted_wrt (\<lambda>a b. mes_anyo b < mes_anyo a) bp \<and>
     sorted_wrt (\<lambda>a b. mes_anyo b < mes_anyo a) (bases_procesadas res) \<and>
     (br \<noteq> [] \<longrightarrow> mes_anyo (hd br) = fecha_jubilacion s - 1) \<and>
     (bp \<noteq> [] \<longrightarrow> mes_anyo (hd bp) = fecha_jubilacion s - 1) \<and>
     (bases_procesadas res \<noteq> [] \<longrightarrow>
        mes_anyo (hd (bases_procesadas res)) = fecha_jubilacion s - 1)"
proof -
  from procesar_bases_completo_Inr [OF assms]
  obtain br er bp ep where r: "procesar_calculo_reforma s = Inr (br, er)"
    and p: "procesar_calculo_prereforma s = Inr (bp, ep)"
    and c: "bases_procesadas res = br \<or> bases_procesadas res = bp"
    by (elim exE conjE)
  have or: "sorted_wrt (\<lambda>a b. mes_anyo b < mes_anyo a) br \<and>
      (br \<noteq> [] \<longrightarrow> mes_anyo (hd br) = fecha_jubilacion s - 1)"
    by (rule orden_estricto)
       (rule procesar_calculo_meses [OF r [unfolded procesar_calculo_reforma_def]])
  have op: "sorted_wrt (\<lambda>a b. mes_anyo b < mes_anyo a) bp \<and>
      (bp \<noteq> [] \<longrightarrow> mes_anyo (hd bp) = fecha_jubilacion s - 1)"
    by (rule orden_estricto)
       (rule procesar_calculo_meses [OF p [unfolded procesar_calculo_prereforma_def]])
  from c or op have "sorted_wrt (\<lambda>a b. mes_anyo b < mes_anyo a) (bases_procesadas res) \<and>
      (bases_procesadas res \<noteq> [] \<longrightarrow>
         mes_anyo (hd (bases_procesadas res)) = fecha_jubilacion s - 1)"
    by (elim disjE) simp_all
  with r p c or op show ?thesis by blast
qed

theorem listas_en_orden_descendente_witness:
  "\<exists>res br er bp ep.
     procesar_bases_completo (simulador_ej ''GENERAL'' ''MASCULINO'') = Inr res \<and>
     procesar_calculo_reforma (simulador_ej ''GENERAL'' ''MASCULINO'') = Inr (br, er) \<and>
     procesar_calculo_prereforma (simulador_ej ''GENERAL'' ''MASCULINO'') = Inr (bp, ep) \<and>
     sorted_wrt (\<lambda>a b. mes_anyo b < mes_anyo a) br \<and>
     sorted_wrt (\<lambda>a b. mes_anyo b < mes_anyo a) bp \<and>
     sorted_wrt (\<lambda>a b. mes_anyo b < mes_anyo a) (bases_procesadas res) \<and>
     mes_anyo (hd (bases_procesadas res)) = ym 2025 5"
proof -
  let ?s = "simulador_ej ''GENERAL'' ''MASCULINO''"
  from procesar_bases_completo_total
    [OF simulador_ej_valido [where reg = "''GENERAL''" and sx = "''MASCULINO''"]]
  obtain res where res: "procesar_bases_completo ?s = Inr res"
    by (elim exE conjE)
  have len: "length br = 300" if "procesar_calculo_reforma ?s = Inr (br, er)" for br er
  proof -
    from procesar_calculo_meses [OF that [unfolded procesar_calculo_reforma_def]]
    have "length (map mes_anyo br) = nat (numero_bases ?s False)"
      by (simp only: length_map length_upt diff_zero)
    then show ?thesis by (simp add: numero_bases_def simulador_ej_def)
  qed
  have lenp: "length bp = 300" if "procesar_calculo_prereforma ?s = Inr (bp, ep)" for bp ep
  proof -
    from procesar_calculo_meses [OF that [unfolded procesar_calculo_prereforma_def]]
    have "length (map mes_anyo bp) = nat (numero_bases ?s True)"
      by (simp only: length_map length_upt diff_zero)
    then show ?thesis by (simp add: numero_bases_def)
  qed
  have fj: "fecha_jubilacion ?s - 1 = ym 2025 5" by (simp add: simulador_ej_def ym_def)
  from listas_en_orden_descendente [OF res]
  obtain br er bp ep where h: "procesar_calculo_reforma ?s = Inr (br, er)"
    "procesar_calculo_prereforma ?s = Inr (bp, ep)"
    "bases_procesadas res = br \<or> bases_procesadas res = bp"
    "sorted_wrt (\<lambda>a b. mes_anyo b < mes_anyo a) br"
    "sorted_wrt (\<lambda>a b. mes_anyo b < mes_anyo a) bp"
    "sorted_wrt (\<lambda>a b. mes_anyo b < mes_anyo a) (bases_procesadas res)"
    "bases_procesadas res \<noteq> [] \<longrightarrow>
        mes_anyo (hd (bases_procesadas res)) = fecha_jubilacion ?s - 1"
    by (elim exE conjE)
  from h(3) len [OF h(1)] lenp [OF h(2)] have "bases_procesadas res \<noteq> []" by auto
  with h(7) have "mes_anyo (hd (bases_procesadas res)) = ym 2025 5" by (simp add: fj)
  with res h(1,2,4,5,6) show ?thesis by blast
qed

section \<open>The choice between the two calculations\<close>

text \<open>
  Claim C4. When both calculations have produced their statistics, the complete
  computation returns a result; it chooses the reform calculation when its regulatory
  base is greater than or equal to that of the legacy calculation (so also on a tie) and
  the legacy calculation otherwise; and the result always holds the statistics and the
  parameters of both calculations, and the number of records of each.
\<close>

theorem eleccion_del_calculo_mas_favorable:
  assumes "procesar_calculo_reforma s = Inr (br, Some er)"
    and "procesar_calculo_prereforma s = Inr (bp, Some ep)"
  shows "elegir_calculo_mas_favorable br (Some er) bp (Some ep)
       = Inr (if base_reguladora er \<ge> base_reguladora ep
              then (br, Some er, ''reforma_rd2_2023'')
              else (bp, Some ep, ''prereforma'')) \<and>
     (\<exists>res. procesar_bases_completo s = Inr res \<and>
        (base_reguladora er \<ge> base_reguladora ep \<longrightarrow>
           calculo_elegido res = ''reforma_rd2_2023'' \<and> bases_procesadas res = br \<and>
           res_estadisticas res = Some er) \<and>
        (base_reguladora er < base_reguladora ep \<longrightarrow>
           calculo_elegido res = ''prereforma'' \<and> bases_procesadas res = bp \<and>
           res_estadisticas res = Some ep) \<and>
        cmp_estadisticas (calculo_reforma_rd2_2023 res) = Some er \<and>
        cmp_estadisticas (calculo_prereforma res) = Some ep \<and>
        cmp_bases_incluidas (calculo_reforma_rd2_2023 res)
          = bases_incluidas (parametros_anyo_jubilacion s) \<and>
        cmp_divisor (calculo_reforma_rd2_2023 res)
          = divisor_base_reguladora (parametros_anyo_jubilacion s) \<and>
        cmp_periodo_meses (calculo_reforma_rd2_2023 res)
          = periodo_meses (parametros_anyo_jubilacion s) \<and>
        cmp_bases_incluidas (calculo_prereforma res) = 300 \<and>
        cmp_divisor (calculo_prereforma res) = 350 \<and>
        cmp_periodo_meses (calculo_prereforma res) = 300 \<and>
        cmp_total_bases (calculo_reforma_rd2_2023 res) = length br \<and>
        cmp_total_bases (calculo_prereforma res) = length bp)"
proof
  show "elegir_calculo_mas_favorable br (Some er) bp (Some ep)
       = Inr (if base_reguladora er \<ge> base_reguladora ep
              then (br, Some er, ''reforma_rd2_2023'')
              else (bp, Some ep, ''prereforma''))"
    by (simp add: elegir_calculo_mas_favorable_def)
  show "\<exists>res. procesar_bases_completo s = Inr res \<and>
        (base_reguladora er \<ge> base_reguladora ep \<longrightarrow>
           calculo_elegido res = ''reforma_rd2_2023'' \<and> bases_procesadas res = br \<and>
           res_estadisticas res = Some er) \<and>
        (base_reguladora er < base_reguladora ep \<longrightarrow>
           calculo_elegido res = ''prereforma'' \<and> bases_procesadas res = bp \<and>
           res_estadisticas res = Some ep) \<and>
        cmp_estadisticas (calculo_reforma_rd2_2023 res) = Some er \<and>
        cmp_estadisticas (calculo_prereforma res) = Some ep \<and>
        cmp_bases_incluidas (calculo_reforma_rd2_2023 res)
          = bases_incluidas (parametros_anyo_jubilacion s) \<and>
        cmp_divisor (calculo_reforma_rd2_2023 res)
          = divisor_base_reguladora (parametros_anyo_jubilacion s) \<and>
        cmp_periodo_meses (calculo_reforma_rd2_2023 res)
          = periodo_meses (parametros_anyo_jubilacion s) \<and>
        cmp_bases_incluidas (calculo_prereforma res) = 300 \<and>
        cmp_divisor (calculo_prereforma res) = 350 \<and>
        cmp_periodo_meses (calculo_prereforma res) = 300 \<and>
        cmp_total_bases (calculo_reforma_rd2_2023 res) = length br \<and>
        cmp_total_bases (calculo_prereforma res) = length bp"
    unfolding procesar_bases_completo_eq [OF assms]
    by (simp add: generar_resultado_completo_def)
qed

text \<open>
  On the fixture both calculations use 300 months and the divisor 350, so their
  regulatory bases are equal: the tie goes to the reform calculation.
\<close>

theorem eleccion_del_calculo_mas_favorable_witness:
  "\<exists>res e. procesar_bases_completo (simulador_ej ''GENERAL'' ''MASCULINO'') = Inr res \<and>
     cmp_estadisticas (calculo_reforma_rd2_2023 res) = Some e \<and>
     cmp_estadisticas (calculo_prereforma res) = Some e \<and>
     calculo_elegido res = ''reforma_rd2_2023'' \<and>
     res_estadisticas res = Some e \<and>
     cmp_total_bases (calculo_reforma_rd2_2023 res) = length (bases_procesadas res)"
proof -
  let ?s = "simulador_ej ''GENERAL'' ''MASCULINO''"
  have nb: "numero_bases ?s False = numero_bases ?s True"
    by (simp add: numero_bases_def simulador_ej_def)
  have dv: "divisor_base_reguladora (parametros_anyo_jubilacion ?s) = 350"
    by (simp add: simulador_ej_def)
  have ob: "obtener_bases_periodo_computo ?s False = obtener_bases_periodo_computo ?s True"
    by (simp only: obtener_bases_periodo_computo_def nb)
  have eq: "procesar_calculo_reforma ?s = procesar_calculo_prereforma ?s"
    by (simp only: procesar_calculo_reforma_def procesar_calculo_prereforma_def
          procesar_calculo_def ob dv)
  from procesar_bases_completo_total
    [OF simulador_ej_valido [where reg = "''GENERAL''" and sx = "''MASCULINO''"]]
  obtain br er bp ep where r: "procesar_calculo_reforma ?s = Inr (br, Some er)"
    and p: "procesar_calculo_prereforma ?s = Inr (bp, Some ep)"
    by (elim exE conjE)
  from r p eq have same: "bp = br" "ep = er" by simp_all
  from eleccion_del_calculo_mas_favorable [OF r p] show ?thesis
    unfolding same by auto
qed

section \<open>Validation at ingestion\<close>

lemma init_sexo:
  "init cfg e fj reg sx
     = bind_res (init cfg e fj reg sx') (\<lambda>s. Inr (s\<lparr>sexo := upper sx\<rparr>))"
  by (simp add: init_def Let_def bind_res_def split: sum.splits)

lemma init_sexo_ej:
  "init config_ej (Bases bases_ejemplo) ''06/2025'' ''GENERAL'' ''OTRO''
     = Inr (simulador_ej ''GENERAL'' ''OTRO'')"
proof -
  have "upper ''OTRO'' = ''OTRO''" by (simp add: upper_def upper_char_def)
  then show ?thesis
    unfolding init_sexo [of _ _ _ _ "''OTRO''" "''MASCULINO''"] init_ej
    by (simp add: simulador_ej_def)
qed

lemma procesar_bases_completo_sexo:
  assumes "procesar_bases_completo s = Inr res"
  shows "res_sexo res = sexo s"
  using assms
  by (auto simp: procesar_bases_completo_def bind_res_eq_Inr generar_resultado_completo_def)

lemma init_errores_ej:
  "init config_ej (Bases bases_ejemplo) ''06/2025'' ''OTRO'' ''FEMENINO'' = Inl RegimenInvalido"
  "init config_ej (Bases []) ''06/2025'' ''GENERAL'' ''FEMENINO'' = Inl ListaBasesVacia"
  "init config_ej (Bases bases_ejemplo) ''2025/06'' ''GENERAL'' ''FEMENINO''
     = Inl FormatoFechaInvalido"
  "init config_ej (Bases base_negativa_ej) ''06/2025'' ''GENERAL'' ''FEMENINO'' = Inl BaseNegativa"
  by (simp_all add: init_def upper_def upper_char_def validar_datos_entrada_def strptime_def
        strptime_anyo_def es_digito_def valor_digito_def procesar_fecha_jubilacion_def
        bases_ejemplo_def base_negativa_ej_def lista_de_def procesar_bases_extraidas_def Let_def)

text \<open>
  Claim C8, on the code. The constructor validates the shape of the input, the date, the
  regime and the amounts, but not the sex: the result of the constructor for any sex
  value is its result for any other one with the stored (upper-cased) sex changed. On
  the fixture, the sex \<open>OTRO\<close> is accepted, the complete computation returns a result
  that echoes it, and the 49th gap is imputed as for a man without special conditions;
  an invalid regime, an empty list, a malformed date and a negative amount are rejected.
\<close>

theorem init_no_valida_el_sexo:
  "init cfg e fj reg sx
     = bind_res (init cfg e fj reg ''MASCULINO'') (\<lambda>s. Inr (s\<lparr>sexo := upper sx\<rparr>)) \<and>
   init config_ej (Bases bases_ejemplo) ''06/2025'' ''GENERAL'' ''OTRO''
     = Inr (simulador_ej ''GENERAL'' ''OTRO'') \<and>
   (\<exists>res. procesar_bases_completo (simulador_ej ''GENERAL'' ''OTRO'') = Inr res \<and>
      res_sexo res = ''OTRO'') \<and>
   calcular_base_laguna (simulador_ej ''GENERAL'' ''OTRO'') (ym 2025 3) 49 = Inr 540 \<and>
   init config_ej (Bases bases_ejemplo) ''06/2025'' ''OTRO'' ''FEMENINO'' = Inl RegimenInvalido \<and>
   init config_ej (Bases []) ''06/2025'' ''GENERAL'' ''FEMENINO'' = Inl ListaBasesVacia \<and>
   init config_ej (Bases bases_ejemplo) ''2025/06'' ''GENERAL'' ''FEMENINO''
     = Inl FormatoFechaInvalido \<and>
   init config_ej (Bases base_negativa_ej) ''06/2025'' ''GENERAL'' ''FEMENINO'' = Inl BaseNegativa"
proof -
  let ?s = "simulador_ej ''GENERAL'' ''OTRO''"
  from procesar_bases_completo_total
    [OF simulador_ej_valido [where reg = "''GENERAL''" and sx = "''OTRO''"]]
  obtain res where res: "procesar_bases_completo ?s = Inr res" by (elim exE conjE)
  from procesar_bases_completo_sexo [OF res] have "res_sexo res = ''OTRO''"
    by (simp add: simulador_ej_def)
  with res have out: "\<exists>res. procesar_bases_completo ?s = Inr res \<and> res_sexo res = ''OTRO''"
    by blast
  have a: "anyo_de (ym 2025 3) = 2025" by (simp add: anyo_de_def ym_def)
  have lag: "calcular_base_laguna ?s (ym 2025 3) 49 = Inr 540"
    by (simp add: calcular_base_laguna_def a aplica_dt41_def simulador_ej_def base_minima_ej
          round2_numeral)
  from init_sexo [of cfg e fj reg sx "''MASCULINO''"] init_sexo_ej out lag init_errores_ej
  show ?thesis by simp
qed

section \<open>Amounts in cents along the pipeline\<close>











section \<open>The statistics of a calculation\<close>






end
